theory Spec2Isabelle
  imports Complex_Main
begin

section \<open>Order-status live updates: the page script and the service worker\<close>

text \<open>
  The page script (js/qr-code-manager.js) holds three classes: \<open>NotificationManager\<close>,
  \<open>ProgressTracker\<close> and \<open>OrderSubscription\<close>. The service worker holds the
  \<open>install\<close>, \<open>activate\<close>, \<open>push\<close> and \<open>fetch\<close> listeners. Each class is a
  record of its fields, each method a function from the state before to the state after.

  Conventions of the embedding:
  \<^item> a status is a JavaScript string, here a \<open>string\<close>; a character outside ASCII is
    written as its UTF-8 bytes;
  \<^item> \<open>undefined\<close> is \<open>None\<close>;
  \<^item> a JavaScript number that the script computes by division is the exact rational
    (\<open>rat\<close>); the double of the engine differs from it by rounding only, which
    changes neither the order of the widths nor their first decimal;
  \<^item> an element of the page is identified by the order of its creation (a \<open>nat\<close>);
  \<^item> a callback handed to \<open>setTimeout\<close> is an entry of a list of pending timeouts,
    and running one is an event of its own.
\<close>

subsection \<open>Strings of the script\<close>

definition party_popper :: string where
  "party_popper = [CHR 0xF0, CHR 0x9F, CHR 0x8E, CHR 0x89]"

definition man_cook :: string where
  "man_cook = [CHR 0xF0, CHR 0x9F, CHR 0x91, CHR 0xA8, CHR 0xE2, CHR 0x80, CHR 0x8D,
               CHR 0xF0, CHR 0x9F, CHR 0x8D, CHR 0xB3]"

definition check_mark :: string where
  "check_mark = [CHR 0xE2, CHR 0x9C, CHR 0x85]"

definition e_acute :: string where
  "e_acute = [CHR 0xC3, CHR 0xA9]"

text \<open>A template literal prints \<open>undefined\<close> as the word.\<close>

definition js_text :: "string option \<Rightarrow> string" where
  "js_text v = (case v of None \<Rightarrow> ''undefined'' | Some s \<Rightarrow> s)"

text \<open>\<open>Array.prototype.indexOf\<close>: the first position of the element, or \<open>-1\<close>.\<close>

fun indexOf :: "'a list \<Rightarrow> 'a \<Rightarrow> int" where
  "indexOf [] x = -1"
| "indexOf (y # ys) x =
     (if y = x then 0 else (let i = indexOf ys x in if i < 0 then -1 else i + 1))"

text \<open>
  A property read \<open>obj[key]\<close> on an object literal finds the literal's own properties
  first and then those of \<open>Object.prototype\<close>, whose values are functions (or, under
  \<open>__proto__\<close>, the prototype itself): truthy, with no \<open>title\<close> and no \<open>message\<close>.
\<close>

definition object_prototype_keys :: "string list" where
  "object_prototype_keys =
     [''constructor'', ''__defineGetter__'', ''__defineSetter__'', ''hasOwnProperty'',
      ''__lookupGetter__'', ''__lookupSetter__'', ''isPrototypeOf'',
      ''propertyIsEnumerable'', ''toString'', ''valueOf'', ''__proto__'',
      ''toLocaleString'']"

subsection \<open>NotificationManager\<close>

record card =
  card_id :: nat
  card_status :: string
  card_title :: string
  card_message :: string

datatype callback = AddShowClass card | Dismiss card | Removal card

datatype effect = PlaySound string | BrowserNotification "string option" "string option"

text \<open>
  \<open>container\<close> is the list of children of the \<open>div.notification-bar\<close>. The class list
  of an element is kept in a store indexed by the element, since the queue and the
  container share the elements. \<open>effects\<close> records the calls of
  \<open>playNotificationSound\<close> and \<open>showBrowserNotification\<close>, whose bodies (audio, the
  system notification) touch neither the queue nor the container.
\<close>

record NotificationManager =
  container :: "card list"
  notificationQueue :: "card list"
  maxNotifications :: nat
  soundEnabled :: bool
  classList :: "nat \<Rightarrow> string list"
  timeouts :: "(nat \<times> callback) list"
  effects :: "effect list"
  created :: nat

definition new_NotificationManager :: NotificationManager where
  "new_NotificationManager =
     \<lparr>container = [], notificationQueue = [], maxNotifications = 3, soundEnabled = True,
      classList = (\<lambda>_. []), timeouts = [], effects = [], created = 0\<rparr>"

record show_options =
  opt_status :: string
  opt_title :: "string option"
  opt_message :: "string option"
  opt_duration :: "nat option"
  opt_sound :: "bool option"

definition classList_add :: "string \<Rightarrow> string list \<Rightarrow> string list" where
  "classList_add c cs = (if c \<in> set cs then cs else cs @ [c])"

definition setTimeout :: "callback \<Rightarrow> nat \<Rightarrow> NotificationManager \<Rightarrow> NotificationManager" where
  "setTimeout cb ms nm = nm\<lparr>timeouts := timeouts nm @ [(ms, cb)]\<rparr>"

definition add_class :: "card \<Rightarrow> string \<Rightarrow> NotificationManager \<Rightarrow> NotificationManager" where
  "add_class el c nm =
     nm\<lparr>classList := (classList nm)(card_id el := classList_add c (classList nm (card_id el)))\<rparr>"

definition createNotificationElement ::
  "string \<Rightarrow> string option \<Rightarrow> string option \<Rightarrow> NotificationManager \<Rightarrow> card \<times> NotificationManager" where
  "createNotificationElement st title message nm =
     (let notification = \<lparr>card_id = created nm, card_status = st,
                           card_title = js_text title, card_message = js_text message\<rparr>
      in (notification,
          nm\<lparr>created := Suc (created nm),
             classList := (classList nm)(created nm := [''notification-card''])\<rparr>))"

definition dismiss :: "card \<Rightarrow> NotificationManager \<Rightarrow> NotificationManager" where
  "dismiss notification nm = setTimeout (Removal notification) 400 (add_class notification ''hide'' nm)"


definition show_card :: "show_options \<Rightarrow> NotificationManager \<Rightarrow> card \<times> NotificationManager" where
  "show_card options nm =
     (let duration = (case opt_duration options of None \<Rightarrow> 5000 | Some d \<Rightarrow> d);
          sound = (case opt_sound options of None \<Rightarrow> True | Some b \<Rightarrow> b);
          (notification, nm1) =
             createNotificationElement (opt_status options) (opt_title options)
               (opt_message options) nm;
          nm2 = nm1\<lparr>container := container nm1 @ [notification]\<rparr>;
          nm3 = setTimeout (AddShowClass notification) 10 nm2;
          nm4 = (if sound \<and> soundEnabled nm3
                 then nm3\<lparr>effects := effects nm3 @ [PlaySound (opt_status options)]\<rparr>
                 else nm3);
          nm5 = nm4\<lparr>effects := effects nm4
                        @ [BrowserNotification (opt_title options) (opt_message options)]\<rparr>;
          nm6 = setTimeout (Dismiss notification) duration nm5;
          nm7 = nm6\<lparr>notificationQueue := notificationQueue nm6 @ [notification]\<rparr>;
          nm8 = (if length (notificationQueue nm7) > maxNotifications nm7
                 then (let oldNotification = hd (notificationQueue nm7)
                       in dismiss oldNotification
                            (nm7\<lparr>notificationQueue := tl (notificationQueue nm7)\<rparr>))
                 else nm7)
      in (notification, nm8))"






subsection \<open>ProgressTracker\<close>

text \<open>
  \<open>steps\<close> is assigned once, in the constructor, and never written again: a constant.
  The element found by \<open>document.getElementById\<close> is \<open>None\<close> when there is none, and
  otherwise the list of the contents that \<open>render\<close> has assigned to its \<open>innerHTML\<close>,
  the latest last: the width of the fill line and the class of each step.
\<close>

definition steps :: "string list" where
  "steps = [''pending'', ''preparing'', ''ready'', ''completed'']"

record view =
  fill_width :: rat
  step_classes :: "string list"

record ProgressTracker =
  tracker_container :: "view list option"
  currentStep :: string

definition new_ProgressTracker :: "view list option \<Rightarrow> ProgressTracker" where
  "new_ProgressTracker el = \<lparr>tracker_container = el, currentStep = ''pending''\<rparr>"

definition getStepClass :: "ProgressTracker \<Rightarrow> string \<Rightarrow> string" where
  "getStepClass t st =
     (let currentIndex = indexOf steps (currentStep t);
          stepIndex = indexOf steps st
      in if stepIndex < currentIndex then ''completed''
         else if stepIndex = currentIndex then ''active''
         else '''')"

definition getProgressWidth :: "ProgressTracker \<Rightarrow> rat" where
  "getProgressWidth t =
     (let currentIndex = indexOf steps (currentStep t)
      in (of_int currentIndex / of_int (int (length steps) - 1)) * 100)"

definition render :: "ProgressTracker \<Rightarrow> ProgressTracker" where
  "render t =
     (case tracker_container t of
        None \<Rightarrow> t
      | Some html \<Rightarrow>
          t\<lparr>tracker_container :=
               Some (html @ [\<lparr>fill_width = getProgressWidth t,
                              step_classes = map (getStepClass t) steps\<rparr>])\<rparr>)"

text \<open>The table \<open>messages\<close> of \<open>updateStatus\<close>: its own properties.\<close>

definition messages :: "(string \<times> string \<times> string) list" where
  "messages =
     [(''pending'', ''Order Confirmed! '' @ party_popper,
         ''Your order has been placed successfully''),
      (''preparing'', ''Cooking Started! '' @ man_cook,
         ''Your food is being prepared with love''),
      (''ready'', ''Order Ready! '' @ check_mark,
         ''Your delicious food is ready for pickup!''),
      (''completed'', ''Enjoy Your Meal! '' @ party_popper,
         ''Thank you for your order. Bon app'' @ e_acute @ ''tit!'')]"

text \<open>
  \<open>messages[newStatus]\<close>: \<open>None\<close> is \<open>undefined\<close> (falsy); a found value is given by its
  \<open>title\<close> and \<open>message\<close>, both \<open>undefined\<close> for a value inherited from the prototype.
\<close>

definition messages_get :: "string \<Rightarrow> (string option \<times> string option) option" where
  "messages_get newStatus =
     (case map_of messages newStatus of
        Some (title, message) \<Rightarrow> Some (Some title, Some message)
      | None \<Rightarrow> if newStatus \<in> set object_prototype_keys then Some (None, None) else None)"

record window =
  notificationManager :: "NotificationManager option"

definition updateStatus :: "string \<Rightarrow> ProgressTracker \<times> window \<Rightarrow> ProgressTracker \<times> window" where
  "updateStatus newStatus tw =
     (let (t, w) = tw in
      if currentStep t = newStatus then (t, w)
      else
        (let t1 = render (t\<lparr>currentStep := newStatus\<rparr>) in
         case notificationManager w of
           None \<Rightarrow> (t1, w)
         | Some nm \<Rightarrow>
             (case messages_get newStatus of
                None \<Rightarrow> (t1, w)
              | Some (title, message) \<Rightarrow>
                  (t1, w\<lparr>notificationManager :=
                           Some (snd (show_card
                             \<lparr>opt_status = newStatus, opt_title = title, opt_message = message,
                              opt_duration = None, opt_sound = None\<rparr> nm))\<rparr>))))"

text \<open>
  The page as the script leaves it once loaded: its last statement assigns a new
  manager to \<open>window.notificationManager\<close>.
\<close>

definition loaded_window :: window where
  "loaded_window = \<lparr>notificationManager = Some new_NotificationManager\<rparr>"

text \<open>Feeding statuses one at a time; the width read after each update.\<close>

fun feed :: "string list \<Rightarrow> ProgressTracker \<times> window \<Rightarrow> ProgressTracker \<times> window" where
  "feed [] tw = tw"
| "feed (s # ss) tw = feed ss (updateStatus s tw)"

fun widths :: "string list \<Rightarrow> ProgressTracker \<times> window \<Rightarrow> rat list" where
  "widths [] tw = []"
| "widths (s # ss) tw =
     getProgressWidth (fst (updateStatus s tw)) # widths ss (updateStatus s tw)"

text \<open>The statuses of the order record.\<close>

definition recognised :: "string list" where
  "recognised = [''pending'', ''preparing'', ''ready'', ''completed'', ''cancelled'']"

text \<open>The titles of the cards of the notification bar, oldest first.\<close>

definition titles :: "ProgressTracker \<times> window \<Rightarrow> string list option" where
  "titles tw = map_option (\<lambda>nm. map card_title (container nm)) (notificationManager (snd tw))"


subsection \<open>OrderSubscription\<close>

text \<open>
  The Supabase client is a library, not code of the repository. Of it the model keeps
  the registry of channels: \<open>client.channel(name).on(...).subscribe(...)\<close> registers a
  new channel object for a table and a row filter and returns it, and
  \<open>client.removeChannel(channel)\<close> takes that object out of the registry. A channel
  object is identified by the order of its creation.
\<close>

record channel =
  chan_id :: nat
  topic :: string
  chan_table :: string
  chan_filter :: string

record client =
  channels :: "channel list"
  opened :: nat

definition new_client :: client where
  "new_client = \<lparr>channels = [], opened = 0\<rparr>"

definition channel_on_subscribe :: "string \<Rightarrow> string \<Rightarrow> string \<Rightarrow> client \<Rightarrow> nat \<times> client" where
  "channel_on_subscribe name tbl flt c =
     (opened c,
      c\<lparr>channels := channels c @ [\<lparr>chan_id = opened c, topic = name, chan_table = tbl,
                                     chan_filter = flt\<rparr>],
        opened := Suc (opened c)\<rparr>)"

definition removeChannel :: "nat \<Rightarrow> client \<Rightarrow> client" where
  "removeChannel ch c = c\<lparr>channels := filter (\<lambda>x. chan_id x \<noteq> ch) (channels c)\<rparr>"

record 'cb OrderSubscription =
  orderId :: string
  supabase :: client
  subscription :: "nat option"
  onUpdate :: "'cb option"

definition new_OrderSubscription :: "string \<Rightarrow> client \<Rightarrow> 'cb OrderSubscription" where
  "new_OrderSubscription oid c =
     \<lparr>orderId = oid, supabase = c, subscription = None, onUpdate = None\<rparr>"

text \<open>
  \<open>subscribe\<close> is declared \<open>async\<close> but awaits nothing: it runs to its end when called.
  The channel of the orders table is kept in \<open>this.subscription\<close>; the channel of the
  order items is opened and its object dropped.
\<close>

definition subscribe :: "'cb \<Rightarrow> 'cb OrderSubscription \<Rightarrow> 'cb OrderSubscription" where
  "subscribe callback os =
     (let os1 = os\<lparr>onUpdate := Some callback\<rparr>;
          (ch, c1) = channel_on_subscribe (''order-'' @ orderId os1) ''orders''
                       (''order_id=eq.'' @ orderId os1) (supabase os1);
          os2 = os1\<lparr>supabase := c1, subscription := Some ch\<rparr>;
          (items, c2) = channel_on_subscribe (''order-items-'' @ orderId os2) ''order_items''
                       (''order_id=eq.'' @ orderId os2) (supabase os2)
      in os2\<lparr>supabase := c2\<rparr>)"

definition unsubscribe :: "'cb OrderSubscription \<Rightarrow> 'cb OrderSubscription" where
  "unsubscribe os =
     (case subscription os of
        None \<Rightarrow> os
      | Some ch \<Rightarrow> os\<lparr>supabase := removeChannel ch (supabase os)\<rparr>)"

section \<open>The service worker\<close>

subsection \<open>The Cache API of the platform\<close>

text \<open>
  \<open>caches\<close> (a \<open>CacheStorage\<close>) and its caches belong to the browser. The model keeps
  what the listeners rely on: a storage is the list of its named caches in the order of
  their creation, a cache the list of its entries. \<open>open\<close> creates the cache when there
  is none of that name. As the Service Worker standard has it, \<open>match\<close> finds nothing
  for a request whose method is not \<open>GET\<close>, and \<open>put\<close> rejects such a request with a
  \<open>TypeError\<close> and stores nothing.
\<close>

record request =
  req_method :: string
  req_url :: string

record response =
  resp_status :: nat
  resp_body :: string

type_synonym cache = "(request \<times> response) list"

type_synonym cache_storage = "(string \<times> cache) list"

datatype cache_error = TypeError

definition GET :: "string \<Rightarrow> request" where
  "GET u = \<lparr>req_method = ''GET'', req_url = u\<rparr>"

definition caches_keys :: "cache_storage \<Rightarrow> string list" where
  "caches_keys s = map fst s"

definition caches_open :: "string \<Rightarrow> cache_storage \<Rightarrow> cache_storage" where
  "caches_open name s = (if name \<in> set (caches_keys s) then s else s @ [(name, [])])"

definition caches_delete :: "string \<Rightarrow> cache_storage \<Rightarrow> cache_storage" where
  "caches_delete name s = filter (\<lambda>(n, c). n \<noteq> name) s"



definition cache_put :: "request \<Rightarrow> response \<Rightarrow> cache \<Rightarrow> cache_error + cache" where
  "cache_put req resp c =
     (if req_method req \<noteq> ''GET'' then Inl TypeError
      else Inr (filter (\<lambda>(r, _). req_url r \<noteq> req_url req) c @ [(req, resp)]))"

text \<open>\<open>cache.put\<close> on the cache of a name; a rejection leaves the storage as it is.\<close>

definition caches_put :: "string \<Rightarrow> request \<Rightarrow> response \<Rightarrow> cache_storage \<Rightarrow> cache_storage" where
  "caches_put name req resp s =
     map (\<lambda>(n, c). if n = name
                    then (case cache_put req resp c of Inl _ \<Rightarrow> (n, c) | Inr c' \<Rightarrow> (n, c'))
                    else (n, c)) s"

subsection \<open>The listeners\<close>

definition CACHE_NAME :: string where
  "CACHE_NAME = ''sarawak-food-court-v1''"

definition urlsToCache :: "string list" where
  "urlsToCache =
     [''/'', ''/customer/home.html'', ''/customer/menu.html'',
      ''/customer/order-tracking.html'', ''/css/main.css'', ''/css/customer.css'',
      ''/css/notifications.css'', ''/js/app.js'', ''/js/notifications.js'']"

text \<open>
  The network is a parameter: what \<open>fetch\<close> resolves to for a request, \<open>None\<close> when it
  rejects. \<open>cache.addAll\<close> fetches every URL and rejects, storing nothing, when one
  fetch fails or answers outside 200..299.
\<close>

definition fetch_ok :: "(request \<Rightarrow> response option) \<Rightarrow> string \<Rightarrow> (request \<times> response) option" where
  "fetch_ok net u =
     (case net (GET u) of
        None \<Rightarrow> None
      | Some r \<Rightarrow> if 200 \<le> resp_status r \<and> resp_status r \<le> 299 then Some (GET u, r) else None)"

fun fetch_all :: "(request \<Rightarrow> response option) \<Rightarrow> string list \<Rightarrow> (request \<times> response) list option" where
  "fetch_all net [] = Some []"
| "fetch_all net (u # us) =
     (case fetch_ok net u of
        None \<Rightarrow> None
      | Some e \<Rightarrow> (case fetch_all net us of None \<Rightarrow> None | Some es \<Rightarrow> Some (e # es)))"

text \<open>The \<open>install\<close> listener: whether the promise given to \<open>waitUntil\<close> fulfils, and the storage.\<close>

definition install :: "(request \<Rightarrow> response option) \<Rightarrow> cache_storage \<Rightarrow> bool \<times> cache_storage" where
  "install net s =
     (let s1 = caches_open CACHE_NAME s in
      case fetch_all net urlsToCache of
        None \<Rightarrow> (False, s1)
      | Some es \<Rightarrow> (True, fold (\<lambda>(req, resp). caches_put CACHE_NAME req resp) es s1))"

text \<open>The \<open>activate\<close> listener.\<close>

definition activate :: "cache_storage \<Rightarrow> cache_storage" where
  "activate s =
     fold (\<lambda>cacheName st. if cacheName \<noteq> CACHE_NAME then caches_delete cacheName st else st)
       (caches_keys s) s"




text \<open>
  The \<open>push\<close> listener. A value of the payload is a JSON value; \<open>notificationData\<close> is
  the map of its properties. The \<open>PushMessageData\<close> of the event is given by what its two
  methods yield: \<open>text()\<close> the payload as a string, \<open>json()\<close> the properties of the
  parsed payload, or \<open>None\<close> when it throws. The listener's effect is the call of
  \<open>showNotification\<close>, given by its arguments.
\<close>

datatype json =
  JNull | JBool bool | JNum rat | JStr string | JArr "json list" | JObj "(string \<times> json) list"

record push_data =
  data_text :: string
  data_json :: "(string \<rightharpoonup> json) option"

record notification_action =
  action :: string
  action_title :: string
  action_icon :: string

record shown_notification =
  sn_title :: "json option"
  sn_body :: "json option"
  sn_icon :: "json option"
  sn_badge :: "json option"
  sn_vibrate :: "json option"
  sn_tag :: "json option"
  sn_requireInteraction :: "json option"
  sn_data :: "json option"
  sn_actions :: "notification_action list"

definition default_notificationData :: "string \<rightharpoonup> json" where
  "default_notificationData =
     [''title'' \<mapsto> JStr ''Sarawak Food Court'',
      ''body'' \<mapsto> JStr ''Your order status has been updated'',
      ''icon'' \<mapsto> JStr ''/assets/logo.png'',
      ''badge'' \<mapsto> JStr ''/assets/logo.png'',
      ''vibrate'' \<mapsto> JArr [JNum 200, JNum 100, JNum 200],
      ''tag'' \<mapsto> JStr ''order-update'',
      ''requireInteraction'' \<mapsto> JBool False]"

definition onPush :: "push_data option \<Rightarrow> shown_notification" where
  "onPush event_data =
     (let notificationData =
            (case event_data of
               None \<Rightarrow> default_notificationData
             | Some d \<Rightarrow>
                 (case data_json d of
                    Some parsed \<Rightarrow> default_notificationData ++ parsed
                  | None \<Rightarrow> default_notificationData(''body'' \<mapsto> JStr (data_text d))))
      in \<lparr>sn_title = notificationData ''title'',
          sn_body = notificationData ''body'',
          sn_icon = notificationData ''icon'',
          sn_badge = notificationData ''badge'',
          sn_vibrate = notificationData ''vibrate'',
          sn_tag = notificationData ''tag'',
          sn_requireInteraction = notificationData ''requireInteraction'',
          sn_data = notificationData ''data'',
          sn_actions =
            [\<lparr>action = ''view'', action_title = ''View Order'',
               action_icon = ''/assets/icons/view.png''\<rparr>,
             \<lparr>action = ''close'', action_title = ''Dismiss'',
               action_icon = ''/assets/icons/close.png''\<rparr>]\<rparr>)"

section \<open>The progress tracker\<close>

subsection \<open>What one update does\<close>

lemma currentStep_render: "currentStep (render t) = currentStep t"
  by (simp add: render_def split: option.splits)

lemma fst_updateStatus:
  "fst (updateStatus s tw) =
     (if currentStep (fst tw) = s then fst tw else render ((fst tw)\<lparr>currentStep := s\<rparr>))"
  by (cases tw) (simp add: updateStatus_def Let_def split: option.splits prod.splits)

lemma snd_updateStatus:
  "snd (updateStatus s tw) =
     (if currentStep (fst tw) = s then snd tw
      else case notificationManager (snd tw) of
             None \<Rightarrow> snd tw
           | Some nm \<Rightarrow>
               (case messages_get s of
                  None \<Rightarrow> snd tw
                | Some (title, message) \<Rightarrow>
                    (snd tw)\<lparr>notificationManager :=
                        Some (snd (show_card
                          \<lparr>opt_status = s, opt_title = title, opt_message = message,
                           opt_duration = None, opt_sound = None\<rparr> nm))\<rparr>))"
  by (cases tw) (simp add: updateStatus_def Let_def split: option.splits prod.splits)

lemma currentStep_updateStatus: "currentStep (fst (updateStatus s tw)) = s"
  by (simp add: fst_updateStatus currentStep_render)

lemma getProgressWidth_index:
  "getProgressWidth t = of_int (indexOf steps (currentStep t)) / 3 * 100"
  by (simp add: getProgressWidth_def steps_def)

lemma indexOf_absent: "x \<notin> set xs \<Longrightarrow> indexOf xs x = -1"
  by (induction xs) (auto simp: Let_def)

lemma render_view:
  "tracker_container t = Some html \<Longrightarrow>
   tracker_container (render t) =
     Some (html @ [\<lparr>fill_width = getProgressWidth t, step_classes = map (getStepClass t) steps\<rparr>])"
  by (simp add: render_def)

lemma getStepClass_off_scale:
  "indexOf steps (currentStep t) = -1 \<Longrightarrow> map (getStepClass t) steps = [[], [], [], []]"
  by (simp add: getStepClass_def steps_def)

lemma render_off_scale:
  assumes "indexOf steps s = -1" "currentStep (fst tw) \<noteq> s" "tracker_container (fst tw) = Some html"
  shows "tracker_container (fst (updateStatus s tw)) =
           Some (html @ [\<lparr>fill_width = - 100 / 3, step_classes = [[], [], [], []]\<rparr>])"
proof -
  let ?t1 = "(fst tw)\<lparr>currentStep := s\<rparr>"
  have "tracker_container ?t1 = Some html"
    using assms(3) by simp
  from render_view [OF this] show ?thesis
    using assms(1,2) by (simp add: fst_updateStatus getProgressWidth_index getStepClass_off_scale)
qed

lemma widths_map:
  "widths ss tw = map (\<lambda>s. of_int (indexOf steps s) / 3 * 100) ss"
  by (induction ss arbitrary: tw) (simp_all add: getProgressWidth_index currentStep_updateStatus)

subsection \<open>The width along a sequence of updates\<close>

text \<open>
  C1, as the script has it. \<open>updateStatus\<close> stores whatever status it is given, so the
  width follows the index of the status fed: it never decreases along a sequence of
  updates whose indexes in \<open>steps\<close> never decrease, starting from the current step (the
  order of the lifecycle on the linear scale). The tracker refuses no backward update.
\<close>

theorem widths_nondecreasing:
  assumes "sorted (map (indexOf steps) (currentStep (fst tw) # ss))"
  shows "sorted (getProgressWidth (fst tw) # widths ss tw)"
proof -
  let ?f = "\<lambda>i::int. (of_int i :: rat) / 3 * 100"
  have eq: "getProgressWidth (fst tw) # widths ss tw
              = map ?f (map (indexOf steps) (currentStep (fst tw) # ss))"
    by (simp add: widths_map getProgressWidth_index)
  have "sorted (map ?f (map (indexOf steps) (currentStep (fst tw) # ss)))"
    unfolding sorted_map [of ?f]
    by (rule sorted_wrt_mono_rel [OF _ assms]) (simp add: divide_right_mono)
  then show ?thesis by (simp only: eq)
qed

theorem widths_nondecreasing_witness:
  "sorted (map (indexOf steps) [''pending'', ''pending'', ''preparing'', ''ready'', ''completed''])
   \<and> sorted (0 # widths [''pending'', ''preparing'', ''ready'', ''completed'']
                   (new_ProgressTracker None, loaded_window))"
proof -
  have h: "sorted (map (indexOf steps)
             (currentStep (fst (new_ProgressTracker None, loaded_window))
              # [''pending'', ''preparing'', ''ready'', ''completed'']))"
    by (simp add: steps_def new_ProgressTracker_def)
  have w0: "getProgressWidth (fst (new_ProgressTracker None, loaded_window)) = 0"
    by (simp add: getProgressWidth_def steps_def new_ProgressTracker_def)
  from widths_nondecreasing [OF h] h w0 show ?thesis
    by (simp add: new_ProgressTracker_def)
qed

text \<open>
  C1 as stated fails: a fresh tracker fed \<open>ready\<close> and then \<open>pending\<close> stays on the
  linear scale, and its width goes from \<open>200/3\<close> down to \<open>0\<close>.
\<close>

theorem widths_decrease_counterexample:
  "currentStep (fst (feed [''ready''] (new_ProgressTracker None, loaded_window))) \<in> set steps
   \<and> currentStep (fst (feed [''ready'', ''pending''] (new_ProgressTracker None, loaded_window))) \<in> set steps
   \<and> widths [''ready'', ''pending''] (new_ProgressTracker None, loaded_window) = [200 / 3, 0]
   \<and> \<not> sorted (widths [''ready'', ''pending''] (new_ProgressTracker None, loaded_window))"
  by (simp add: widths_map currentStep_updateStatus steps_def)

subsection \<open>A status outside the five\<close>

text \<open>
  C2, as the script has it. \<open>updateStatus\<close> checks nothing and returns no error: a status
  outside the five becomes \<open>currentStep\<close>, its index in \<open>steps\<close> is \<open>-1\<close> and the width
  is \<open>-100/3\<close>; unless it is the current step already, the tracker is rendered again,
  with that width and no step marked. No card is shown, but for a name that
  \<open>Object.prototype\<close> defines.
\<close>

theorem updateStatus_unrecognised:
  "newStatus \<notin> set recognised \<Longrightarrow>
     currentStep (fst (updateStatus newStatus (t, w))) = newStatus
   \<and> getProgressWidth (fst (updateStatus newStatus (t, w))) = - 100 / 3
   \<and> (currentStep t \<noteq> newStatus \<longrightarrow>
        fst (updateStatus newStatus (t, w)) = render (t\<lparr>currentStep := newStatus\<rparr>)
        \<and> (\<forall>html. tracker_container t = Some html \<longrightarrow>
              tracker_container (fst (updateStatus newStatus (t, w))) =
                Some (html @ [\<lparr>fill_width = - 100 / 3, step_classes = [[], [], [], []]\<rparr>])))
   \<and> (newStatus \<notin> set object_prototype_keys \<longrightarrow> snd (updateStatus newStatus (t, w)) = w)"
proof -
  assume un: "newStatus \<notin> set recognised"
  then have "newStatus \<notin> set steps"
    by (simp add: recognised_def steps_def)
  then have idx: "indexOf steps newStatus = -1"
    by (rule indexOf_absent)
  have cur: "currentStep (fst (updateStatus newStatus (t, w))) = newStatus"
    by (rule currentStep_updateStatus)
  have wid: "getProgressWidth (fst (updateStatus newStatus (t, w))) = - 100 / 3"
    by (simp add: getProgressWidth_index cur idx)
  have msg: "messages_get newStatus = None" if "newStatus \<notin> set object_prototype_keys"
    using un that by (simp add: messages_get_def messages_def recognised_def)
  have win: "snd (updateStatus newStatus (t, w)) = w" if "newStatus \<notin> set object_prototype_keys"
    by (simp add: snd_updateStatus msg [OF that] split: option.splits)
  have ren: "tracker_container (fst (updateStatus newStatus (t, w))) =
               Some (html @ [\<lparr>fill_width = - 100 / 3, step_classes = [[], [], [], []]\<rparr>])"
    if "currentStep t \<noteq> newStatus" "tracker_container t = Some html" for html
    using render_off_scale [OF idx, of "(t, w)" html] that by simp
  show ?thesis using cur wid win ren by (simp add: fst_updateStatus)
qed

theorem updateStatus_unrecognised_witness:
  "''refunded'' \<notin> set recognised
   \<and> updateStatus ''refunded'' (\<lparr>tracker_container = Some [], currentStep = ''ready''\<rparr>, loaded_window) =
       (\<lparr>tracker_container = Some [\<lparr>fill_width = - 100 / 3, step_classes = [[], [], [], []]\<rparr>],
         currentStep = ''refunded''\<rparr>, loaded_window)"
proof -
  let ?t = "\<lparr>tracker_container = Some [], currentStep = ''ready''\<rparr>"
  have un: "''refunded'' \<notin> set recognised"
    by (simp add: recognised_def)
  have np: "''refunded'' \<notin> set object_prototype_keys"
    by (simp add: object_prototype_keys_def)
  have ne: "currentStep ?t \<noteq> ''refunded''"
    by simp
  have tc: "tracker_container ?t = Some []"
    by simp
  from updateStatus_unrecognised [OF un, of ?t loaded_window] np ne tc
  have a: "currentStep (fst (updateStatus ''refunded'' (?t, loaded_window))) = ''refunded''"
    and b: "snd (updateStatus ''refunded'' (?t, loaded_window)) = loaded_window"
    and c: "tracker_container (fst (updateStatus ''refunded'' (?t, loaded_window))) =
                Some ([] @ [\<lparr>fill_width = - 100 / 3, step_classes = [[], [], [], []]\<rparr>])"
    by blast+
  show ?thesis using un a b c
    by (cases "updateStatus ''refunded'' (?t, loaded_window)") auto
qed

text \<open>
  C2 as stated fails: \<open>delivered\<close> is accepted, \<open>currentStep\<close> changes and the tracker is
  rendered with the width \<open>-100/3\<close>.
\<close>

theorem updateStatus_unrecognised_counterexample:
  "''delivered'' \<notin> set recognised
   \<and> currentStep (new_ProgressTracker (Some [])) = ''pending''
   \<and> updateStatus ''delivered'' (new_ProgressTracker (Some []), loaded_window) =
       (\<lparr>tracker_container = Some [\<lparr>fill_width = - 100 / 3, step_classes = [[], [], [], []]\<rparr>],
         currentStep = ''delivered''\<rparr>, loaded_window)"
  by (simp add: recognised_def new_ProgressTracker_def updateStatus_def loaded_window_def
      render_def getProgressWidth_def getStepClass_def steps_def messages_get_def messages_def
      object_prototype_keys_def)

subsection \<open>The same status again\<close>

text \<open>
  C3: \<open>updateStatus\<close> with the status that is the current step changes nothing: the
  tracker (its step, what its element has been given to render) and the window (the
  manager, with its queue, its cards and its pending timeouts) are what they were.
\<close>

theorem updateStatus_same: "updateStatus (currentStep t) (t, w) = (t, w)"
  by (simp add: updateStatus_def)

subsection \<open>The status flow\<close>

lemma titles_shown:
  "map card_title (container (snd (show_card options nm)))
     = map card_title (container nm) @ [js_text (opt_title options)]"
  by (simp add: show_card_def createNotificationElement_def setTimeout_def dismiss_def
      add_class_def Let_def)

lemma messages_get_values:
  "messages_get ''pending'' = Some (Some (''Order Confirmed! '' @ party_popper),
      Some ''Your order has been placed successfully'')"
  "messages_get ''preparing'' = Some (Some (''Cooking Started! '' @ man_cook),
      Some ''Your food is being prepared with love'')"
  "messages_get ''ready'' = Some (Some (''Order Ready! '' @ check_mark),
      Some ''Your delicious food is ready for pickup!'')"
  "messages_get ''completed'' = Some (Some (''Enjoy Your Meal! '' @ party_popper),
      Some (''Thank you for your order. Bon app'' @ e_acute @ ''tit!''))"
  by (simp_all add: messages_get_def messages_def)

lemma titles_updateStatus:
  assumes "titles tw = Some ts" "currentStep (fst tw) \<noteq> s" "messages_get s = Some (ti, m)"
  shows "titles (updateStatus s tw) = Some (ts @ [js_text ti])"
proof -
  from assms(1) obtain nm where nm: "notificationManager (snd tw) = Some nm"
    and ts: "map card_title (container nm) = ts"
    by (auto simp: titles_def)
  show ?thesis
    using assms(2,3) nm ts by (simp add: titles_def snd_updateStatus titles_shown)
qed

lemma round_third: "round (1000 / 3 :: rat) = 333" "round (2000 / 3 :: rat) = 667"
  by code_simp+

lemma feed_pending_fresh:
  "updateStatus ''pending'' (new_ProgressTracker el, w) = (new_ProgressTracker el, w)"
  by (simp add: updateStatus_def new_ProgressTracker_def)

lemma titles_status_flow:
  "titles (feed [''pending'', ''preparing'', ''ready'', ''completed'']
        (new_ProgressTracker el, loaded_window))
     = Some [''Cooking Started! '' @ man_cook, ''Order Ready! '' @ check_mark,
             ''Enjoy Your Meal! '' @ party_popper]"
proof -
  let ?tw1 = "(new_ProgressTracker el, loaded_window)"
  let ?tw2 = "updateStatus ''preparing'' ?tw1"
  let ?tw3 = "updateStatus ''ready'' ?tw2"
  let ?tw4 = "updateStatus ''completed'' ?tw3"
  have t1: "titles ?tw1 = Some []"
    by (simp add: titles_def loaded_window_def new_NotificationManager_def)
  have c1: "currentStep (fst ?tw1) \<noteq> ''preparing''"
    by (simp add: new_ProgressTracker_def)
  have t2: "titles ?tw2 = Some [''Cooking Started! '' @ man_cook]"
    using titles_updateStatus [OF t1 c1 messages_get_values(2)] by (simp add: js_text_def)
  have c2: "currentStep (fst ?tw2) \<noteq> ''ready''"
    by (simp add: currentStep_updateStatus)
  have t3: "titles ?tw3 = Some [''Cooking Started! '' @ man_cook, ''Order Ready! '' @ check_mark]"
    using titles_updateStatus [OF t2 c2 messages_get_values(3)] by (simp add: js_text_def)
  have c3: "currentStep (fst ?tw3) \<noteq> ''completed''"
    by (simp add: currentStep_updateStatus)
  have t4: "titles ?tw4 = Some [''Cooking Started! '' @ man_cook, ''Order Ready! '' @ check_mark,
             ''Enjoy Your Meal! '' @ party_popper]"
    using titles_updateStatus [OF t3 c3 messages_get_values(4)] by (simp add: js_text_def)
  show ?thesis
    using t4 by (simp add: feed_pending_fresh)
qed

text \<open>
  C4, as the script has it. A new tracker is at \<open>pending\<close> already, so the first update
  is the no-op of C3 and shows nothing: the four updates show three cards, titled
  \<open>Cooking Started!\<close>, \<open>Order Ready!\<close> and \<open>Enjoy Your Meal!\<close>, each followed by a space and
  its emoji. The widths read after the updates are \<open>0\<close>, \<open>100/3\<close>, \<open>200/3\<close> and \<open>100\<close>,
  which to one decimal are 0, 33.3, 66.7 and 100.
\<close>

theorem status_flow:
  "titles (feed [''pending'', ''preparing'', ''ready'', ''completed'']
        (new_ProgressTracker el, loaded_window))
     = Some [''Cooking Started! '' @ man_cook, ''Order Ready! '' @ check_mark,
             ''Enjoy Your Meal! '' @ party_popper]
   \<and> widths [''pending'', ''preparing'', ''ready'', ''completed'']
        (new_ProgressTracker el, loaded_window) = [0, 100 / 3, 200 / 3, 100]
   \<and> map (\<lambda>x. round (10 * x)) (widths [''pending'', ''preparing'', ''ready'', ''completed'']
        (new_ProgressTracker el, loaded_window)) = [0, 333, 667, 1000]"
proof -
  have w: "widths [''pending'', ''preparing'', ''ready'', ''completed'']
             (new_ProgressTracker el, loaded_window) = [0, 100 / 3, 200 / 3, 100]"
    by (simp add: widths_map steps_def)
  have r: "map (\<lambda>x. round (10 * x)) [0, 100 / 3, 200 / 3, 100 :: rat] = [0, 333, 667, 1000]"
    by (simp add: round_third)
  show ?thesis
    unfolding w by (intro conjI titles_status_flow refl r)
qed

text \<open>
  C4 as stated fails: the cards are three, not four, none is titled \<open>Order Confirmed!\<close>,
  and the first update leaves the page as it was.
\<close>

theorem status_flow_counterexample:
  "titles (feed [''pending'', ''preparing'', ''ready'', ''completed'']
        (new_ProgressTracker None, loaded_window))
     \<noteq> Some [''Order Confirmed!'', ''Cooking Started!'', ''Order Ready!'', ''Enjoy Your Meal!'']
   \<and> map_option length (titles (feed [''pending'', ''preparing'', ''ready'', ''completed'']
        (new_ProgressTracker None, loaded_window))) = Some 3
   \<and> feed [''pending''] (new_ProgressTracker None, loaded_window)
        = (new_ProgressTracker None, loaded_window)"
  using titles_status_flow [of None] by (simp add: feed_pending_fresh)

subsection \<open>Cancellation\<close>



section \<open>The notification queue\<close>


















section \<open>The order subscription\<close>

lemma unsubscribe_idem: "unsubscribe (unsubscribe os) = unsubscribe os"
  by (simp add: unsubscribe_def removeChannel_def split: option.splits)

lemma unsubscribe_new: "unsubscribe (new_OrderSubscription oid c) = new_OrderSubscription oid c"
  by (simp add: unsubscribe_def new_OrderSubscription_def)

lemma unsubscribe_orders_channel:
  "list_all (\<lambda>x. chan_id x < opened c) (channels c) \<Longrightarrow>
   channels (supabase (unsubscribe (subscribe cb (new_OrderSubscription oid c))))
     = channels c @ [\<lparr>chan_id = Suc (opened c), topic = ''order-items-'' @ oid, chan_table = ''order_items'',
     chan_filter = ''order_id=eq.'' @ oid\<rparr>]"
  by (fastforce simp: unsubscribe_def subscribe_def new_OrderSubscription_def
      channel_on_subscribe_def removeChannel_def Let_def list_all_iff filter_id_conv)

text \<open>
  C6, where the script falls short of it. \<open>subscribe\<close> opens two channels and keeps
  only the first; \<open>unsubscribe\<close> removes the one it kept. After \<open>subscribe\<close> and
  \<open>unsubscribe\<close> on a new client, the channel of the order items is still registered;
  and so it is on any client. The rest of the claim holds: a second \<open>unsubscribe\<close>
  changes nothing more, and \<open>unsubscribe\<close> before \<open>subscribe\<close> changes nothing.
\<close>

theorem unsubscribe_keeps_items_channel:
  "channels (supabase (unsubscribe (subscribe cb (new_OrderSubscription ''A1'' new_client))))
     = [\<lparr>chan_id = 1, topic = ''order-items-A1'', chan_table = ''order_items'',
         chan_filter = ''order_id=eq.A1''\<rparr>]
   \<and> \<lparr>chan_id = Suc (opened c), topic = ''order-items-'' @ oid, chan_table = ''order_items'',
       chan_filter = ''order_id=eq.'' @ oid\<rparr>
       \<in> set (channels (supabase (unsubscribe (subscribe cb (new_OrderSubscription oid c)))))
   \<and> unsubscribe (unsubscribe os) = unsubscribe os
   \<and> unsubscribe (new_OrderSubscription oid c) = new_OrderSubscription oid c"
  by (simp add: unsubscribe_idem unsubscribe_new)
     (simp add: unsubscribe_def subscribe_def new_OrderSubscription_def channel_on_subscribe_def
        removeChannel_def new_client_def Let_def)

section \<open>The push listener\<close>

text \<open>
  C7: when \<open>json()\<close> throws on the payload, the notification shown has the payload's
  text as its body, and the default title, icon, badge, vibration, tag and
  \<open>requireInteraction\<close>, no \<open>data\<close>, and the two actions.
\<close>

theorem onPush_plain_text:
  "data_json d = None \<Longrightarrow>
   onPush (Some d) =
     \<lparr>sn_title = Some (JStr ''Sarawak Food Court''),
      sn_body = Some (JStr (data_text d)),
      sn_icon = Some (JStr ''/assets/logo.png''),
      sn_badge = Some (JStr ''/assets/logo.png''),
      sn_vibrate = Some (JArr [JNum 200, JNum 100, JNum 200]),
      sn_tag = Some (JStr ''order-update''),
      sn_requireInteraction = Some (JBool False),
      sn_data = None,
      sn_actions =
        [\<lparr>action = ''view'', action_title = ''View Order'', action_icon = ''/assets/icons/view.png''\<rparr>,
         \<lparr>action = ''close'', action_title = ''Dismiss'', action_icon = ''/assets/icons/close.png''\<rparr>]\<rparr>"
  by (simp add: onPush_def default_notificationData_def)

theorem onPush_plain_text_witness:
  "data_json \<lparr>data_text = ''Your order is on the way'', data_json = None\<rparr> = None
   \<and> sn_body (onPush (Some \<lparr>data_text = ''Your order is on the way'', data_json = None\<rparr>))
       = Some (JStr ''Your order is on the way'')
   \<and> sn_title (onPush (Some \<lparr>data_text = ''Your order is on the way'', data_json = None\<rparr>))
       = Some (JStr ''Sarawak Food Court'')"
  using onPush_plain_text [of "\<lparr>data_text = ''Your order is on the way'', data_json = None\<rparr>"]
  by simp

section \<open>The caches\<close>

lemma caches_keys_delete: "caches_keys (caches_delete n s) = filter (\<lambda>k. k \<noteq> n) (caches_keys s)"
  by (induction s) (auto simp: caches_keys_def caches_delete_def)

lemma fold_delete:
  "fold (\<lambda>cacheName st. if cacheName \<noteq> CACHE_NAME then caches_delete cacheName st else st) ks s
     = filter (\<lambda>(n, c). n = CACHE_NAME \<or> n \<notin> set ks) s"
proof (induction ks arbitrary: s)
  case Nil
  show ?case by simp
next
  case (Cons k ks)
  show ?case
    by (auto simp: Cons.IH caches_delete_def intro!: filter_cong)
qed

lemma activate_filter: "activate s = filter (\<lambda>(n, c). n = CACHE_NAME) s"
proof -
  have "activate s = filter (\<lambda>(n, c). n = CACHE_NAME \<or> n \<notin> set (caches_keys s)) s"
    by (simp add: activate_def fold_delete)
  also have "\<dots> = filter (\<lambda>(n, c). n = CACHE_NAME) s"
    by (rule filter_cong) (force simp: caches_keys_def)+
  finally show ?thesis .
qed

lemma caches_keys_activate:
  "caches_keys (activate s) = filter (\<lambda>n. n = CACHE_NAME) (caches_keys s)"
  by (induction s) (auto simp: activate_filter caches_keys_def)

lemma activate_idem: "activate (activate s) = activate s"
  by (simp add: activate_filter)

lemma filter_eq_distinct:
  "distinct xs \<Longrightarrow> x \<in> set xs \<Longrightarrow> filter (\<lambda>n. n = x) xs = [x]"
  by (induction xs) (auto simp: filter_empty_conv)

lemma caches_keys_put: "caches_keys (caches_put name req resp s) = caches_keys s"
  by (induction s) (auto simp: caches_keys_def caches_put_def split: sum.splits)

lemma caches_keys_puts:
  "caches_keys (fold (\<lambda>(req, resp). caches_put CACHE_NAME req resp) es s) = caches_keys s"
  by (induction es arbitrary: s) (auto simp: caches_keys_put)

lemma caches_keys_open:
  "caches_keys (caches_open n s) = (if n \<in> set (caches_keys s) then caches_keys s else caches_keys s @ [n])"
  by (simp add: caches_open_def caches_keys_def)

lemma caches_keys_install:
  "caches_keys (snd (install net s)) = caches_keys (caches_open CACHE_NAME s)"
  by (simp add: install_def Let_def caches_keys_puts split: option.splits)

text \<open>
  C8: the \<open>activate\<close> listener deletes every cache whose name is not \<open>CACHE_NAME\<close> and
  keeps the others. The \<open>install\<close> listener, which the worker runs before, opens the
  cache of that name, so after activation the storage holds exactly that one cache;
  activating a second time changes nothing, and the storage holds exactly one cache
  again. The storage is keyed by name: its names are distinct.
\<close>

theorem activate_one_generation:
  assumes "distinct (caches_keys s)"
  shows "caches_keys (activate s) = filter (\<lambda>n. n = CACHE_NAME) (caches_keys s)
       \<and> activate (activate s) = activate s
       \<and> caches_keys (activate (snd (install net s))) = [CACHE_NAME]
       \<and> caches_keys (activate (activate (snd (install net s)))) = [CACHE_NAME]"
proof -
  let ?s1 = "snd (install net s)"
  have d: "distinct (caches_keys ?s1)" and m: "CACHE_NAME \<in> set (caches_keys ?s1)"
    using assms by (simp_all add: caches_keys_install caches_keys_open)
  have one: "caches_keys (activate ?s1) = [CACHE_NAME]"
    using filter_eq_distinct [OF d m] by (simp add: caches_keys_activate)
  show ?thesis
    using one by (simp add: activate_idem caches_keys_activate)
qed


theorem activate_one_generation_witness:
  "distinct (caches_keys [(''sarawak-food-court-v0'', []), (''orders-cache'', [])])
   \<and> caches_keys (activate (snd (install (\<lambda>_. None)
        [(''sarawak-food-court-v0'', []), (''orders-cache'', [])]))) = [CACHE_NAME]
   \<and> caches_keys (activate (activate (snd (install (\<lambda>_. None)
        [(''sarawak-food-court-v0'', []), (''orders-cache'', [])])))) = [CACHE_NAME]"
proof -
  have d: "distinct (caches_keys [(''sarawak-food-court-v0'', []), (''orders-cache'', [])])"
    by (simp add: caches_keys_def)
  from activate_one_generation [OF d, of "\<lambda>_. None"] d show ?thesis
    by blast
qed








end
